theory Spec2Isabelle
  imports
    Main
    "HOL-Library.Char_ord"
    "HOL-Library.List_Lexorder"
begin

unbundle bit_operations_syntax

section \<open>Python values and exceptions\<close>

text \<open>
  The exceptions that the modelled code of \<^verbatim>\<open>nekoyume/models.py\<close> can raise.
  The first four are the ones of \<^verbatim>\<open>nekoyume.exc\<close>; the others are built-in
  exceptions of Python that reach the caller because nothing catches them.
\<close>

datatype error =
    InvalidBlockError
  | InvalidMoveError
  | InvalidNameError
  | OutOfRandomError
  | IndexError
  | KeyError
  | ValueError
  | ZeroDivisionError
  | AttributeError
  | TypeError

text \<open>Sequencing of computations that may raise: the first exception wins.\<close>

definition bind_err :: "error + 'a \<Rightarrow> ('a \<Rightarrow> error + 'b) \<Rightarrow> error + 'b" where
  "bind_err r f = (case r of Inl e \<Rightarrow> Inl e | Inr x \<Rightarrow> f x)"

text \<open>
  \<^verbatim>\<open>int(a / b)\<close> on integers: the quotient, truncated towards zero (the float
  division is exact on the small integers it is applied to: block ids and difficulties).
\<close>

definition py_trunc_div :: "int \<Rightarrow> int \<Rightarrow> int" where
  "py_trunc_div a b = sgn a * sgn b * (\<bar>a\<bar> div \<bar>b\<bar>)"

text \<open>\<^verbatim>\<open>xs[k:]\<close>: a negative start counts from the end of the list.\<close>

definition py_slice_from :: "int \<Rightarrow> 'a list \<Rightarrow> 'a list" where
  "py_slice_from k xs =
     (if 0 \<le> k then drop (nat k) xs else drop (nat (int (length xs) + k)) xs)"

subsection \<open>Strings\<close>

text \<open>\<^verbatim>\<open>s.find(c)\<close> for a one-character \<^verbatim>\<open>c\<close>: the first index, or -1.\<close>

definition py_find :: "char \<Rightarrow> string \<Rightarrow> int" where
  "py_find c s = (if c \<in> set s then int (length (takeWhile (\<lambda>x. x \<noteq> c) s)) else - 1)"

text \<open>\<^verbatim>\<open>s.split(c)\<close> for a one-character separator: always at least one part.\<close>

fun py_split :: "char \<Rightarrow> string \<Rightarrow> string list" where
  "py_split c [] = [[]]"
| "py_split c (x # xs) =
     (if x = c then [] # py_split c xs
      else (x # hd (py_split c xs)) # tl (py_split c xs))"

text \<open>
  \<^verbatim>\<open>int(s)\<close> on a string: surrounding white space is stripped, then an optional
  sign and decimal digits, where single underscores may separate digits. Anything
  else raises \<^verbatim>\<open>ValueError\<close>. (Digits outside ASCII are not modelled.)
\<close>

definition is_digit :: "char \<Rightarrow> bool" where
  "is_digit c = (c \<in> set ''0123456789'')"

definition is_space :: "char \<Rightarrow> bool" where
  "is_space c = (c \<in> set [CHR '' '', CHR 0x09, CHR 0x0A, CHR 0x0B, CHR 0x0C, CHR 0x0D])"

definition digit_val :: "char \<Rightarrow> int" where
  "digit_val c = of_char c - 48"

definition py_strip :: "string \<Rightarrow> string" where
  "py_strip s = rev (dropWhile is_space (rev (dropWhile is_space s)))"

text \<open>Digits with single underscores between them; the accumulator is the value so far.\<close>

fun digits_value :: "int \<Rightarrow> string \<Rightarrow> error + int" where
  "digits_value acc [] = Inr acc"
| "digits_value acc [c] = (if is_digit c then Inr (10 * acc + digit_val c) else Inl ValueError)"
| "digits_value acc (c # d # cs) =
     (if is_digit c then
        (if d = CHR ''_'' then
           (if cs = [] then Inl ValueError else digits_value (10 * acc + digit_val c) cs)
         else digits_value (10 * acc + digit_val c) (d # cs))
      else Inl ValueError)"

definition unsigned_value :: "string \<Rightarrow> error + int" where
  "unsigned_value s = (if s = [] then Inl ValueError else digits_value 0 s)"

definition py_int :: "string \<Rightarrow> error + int" where
  "py_int s =
     (case py_strip s of
        [] \<Rightarrow> Inl ValueError
      | c # cs \<Rightarrow>
          if c = CHR ''-'' then bind_err (unsigned_value cs) (\<lambda>n. Inr (- n))
          else if c = CHR ''+'' then unsigned_value cs
          else unsigned_value (c # cs))"

text \<open>\<^verbatim>\<open>str(n)\<close> for a natural number: its decimal digits.\<close>

definition digit_char :: "nat \<Rightarrow> char" where
  "digit_char d = char_of (48 + d)"

fun str_nat :: "nat \<Rightarrow> string" where
  "str_nat n = (if n < 10 then [digit_char n] else str_nat (n div 10) @ [digit_char (n mod 10)])"

declare str_nat.simps [simp del]

definition str_int :: "int \<Rightarrow> string" where
  "str_int i = (if i < 0 then CHR ''-'' # str_nat (nat (- i)) else str_nat (nat i))"

section \<open>Dice\<close>

text \<open>
  \<^verbatim>\<open>Move.roll(randoms, dice, combine)\<close>. The list \<^verbatim>\<open>randoms\<close> is consumed from
  its end by \<^verbatim>\<open>pop()\<close>; the function returns the result together with what is left of
  the list. The result is an integer when \<^verbatim>\<open>combine\<close> is set and the list of the single
  dice otherwise.
\<close>

datatype roll_result = Combined int | Separate "int list"

text \<open>
  The loop \<^verbatim>\<open>for i in range(cnt): result.append(randoms.pop() % dice_type + 1)\<close>.
  An empty list makes \<^verbatim>\<open>pop\<close> raise \<^verbatim>\<open>IndexError\<close>, which is turned into
  \<^verbatim>\<open>OutOfRandomError\<close>; a die with zero sides makes \<^verbatim>\<open>%\<close> raise.
\<close>

fun roll_loop :: "nat \<Rightarrow> int \<Rightarrow> int list \<Rightarrow> int list \<Rightarrow> error + (int list \<times> int list)" where
  "roll_loop 0 dice_type randoms result = Inr (result, randoms)"
| "roll_loop (Suc n) dice_type randoms result =
     (if randoms = [] then Inl OutOfRandomError
      else if dice_type = 0 then Inl ZeroDivisionError
      else roll_loop n dice_type (butlast randoms) (result @ [last randoms mod dice_type + 1]))"

text \<open>Splitting off the \<^verbatim>\<open>+K\<close> part: \<^verbatim>\<open>dice, plus = dice.split('+')\<close>.\<close>

definition split_plus :: "string \<Rightarrow> error + (string \<times> int)" where
  "split_plus dice =
     (if 0 < py_find CHR ''+'' dice then
        (case py_split CHR ''+'' dice of
           [d, p] \<Rightarrow> bind_err (py_int p) (\<lambda>plus. Inr (d, plus))
         | _ \<Rightarrow> Inl ValueError)
      else Inr (dice, 0))"

text \<open>\<^verbatim>\<open>cnt, dice_type = (int(i) for i in dice.split('d'))\<close>.\<close>

definition split_d :: "string \<Rightarrow> error + (int \<times> int)" where
  "split_d dice =
     (case py_split CHR ''d'' dice of
        [c, t] \<Rightarrow> bind_err (py_int c) (\<lambda>cnt. bind_err (py_int t) (\<lambda>dice_type. Inr (cnt, dice_type)))
      | _ \<Rightarrow> Inl ValueError)"

text \<open>The body of \<^verbatim>\<open>roll\<close> up to the final \<^verbatim>\<open>if combine\<close>: the single dice, the
  addend and the rest of the random list.\<close>

definition roll_dice :: "int list \<Rightarrow> string \<Rightarrow> error + (int list \<times> int \<times> int list)" where
  "roll_dice randoms dice =
     bind_err (split_plus dice) (\<lambda>(dice', plus).
     bind_err (split_d dice') (\<lambda>(cnt, dice_type).
     bind_err (roll_loop (nat cnt) dice_type randoms []) (\<lambda>(result, randoms').
       Inr (result, plus, randoms'))))"

definition roll :: "int list \<Rightarrow> string \<Rightarrow> bool \<Rightarrow> error + (roll_result \<times> int list)" where
  "roll randoms dice combine =
     bind_err (roll_dice randoms dice) (\<lambda>(result, plus, randoms').
       if combine then Inr (Combined (sum_list result + plus), randoms')
       else Inr (Separate result, randoms'))"

text \<open>The call \<^verbatim>\<open>self.roll(randoms, dice)\<close> with the default \<^verbatim>\<open>combine=True\<close>, as the
  move handlers use it: the integer and the rest of the list.\<close>

definition roll_combined :: "int list \<Rightarrow> string \<Rightarrow> error + (int \<times> int list)" where
  "roll_combined randoms dice =
     bind_err (roll_dice randoms dice) (\<lambda>(result, plus, randoms').
       Inr (sum_list result + plus, randoms'))"

section \<open>Blocks, moves and avatars\<close>

text \<open>
  The columns of \<^verbatim>\<open>Block\<close>. Field names carry the prefix \<open>b_\<close> (those of a move
  \<open>m_\<close>), since both classes have \<^verbatim>\<open>id\<close> and \<^verbatim>\<open>created_at\<close>. A \<^verbatim>\<open>datetime\<close> is
  the number of microseconds since some epoch, a \<^verbatim>\<open>timedelta\<close> a number of microseconds.
  The relationship \<^verbatim>\<open>block.moves\<close> is not a field: functions that read it take the
  moves as an argument.
\<close>

record block =
  b_id :: int
  b_hash :: "string option"
  b_prev_hash :: "string option"
  b_creator :: string
  b_root_hash :: string
  b_suffix :: string
  b_difficulty :: int
  b_created_at :: int

text \<open>
  A move; \<open>m_block\<close> is the relationship \<^verbatim>\<open>move.block\<close> (\<^verbatim>\<open>None\<close> while the move is
  not in a block), \<open>m_details\<close> the dictionary \<^verbatim>\<open>details\<close> as a list of items. The variant
  (\<^verbatim>\<open>HackAndSlash\<close>, \<^verbatim>\<open>LevelUp\<close>, ...) is selected by \<open>m_name\<close>; each variant's
  \<^verbatim>\<open>execute\<close> is a function of its own below.
\<close>

record move =
  m_id :: "string option"
  m_block :: "block option"
  m_user :: string
  m_signature :: "string option"
  m_name :: string
  m_details :: "(string \<times> string) list"
  m_tax :: int
  m_created_at :: int


text \<open>
  An avatar of class \<^verbatim>\<open>Novice\<close>, the only class the code instantiates:
  \<^verbatim>\<open>damage\<close> is \<^verbatim>\<open>'1d6'\<close> and \<^verbatim>\<open>max_hp\<close> is \<^verbatim>\<open>constitution + 6\<close>.
\<close>

record avatar =
  user :: string
  name :: string
  gravatar_hash :: string
  strength :: int
  dexterity :: int
  constitution :: int
  intelligence :: int
  wisdom :: int
  charisma :: int
  hp :: int
  xp :: int
  lv :: int
  items :: "string \<rightharpoonup> int"

definition damage :: "avatar \<Rightarrow> string" where
  "damage a = ''1d6''"

definition max_hp :: "avatar \<Rightarrow> int" where
  "max_hp a = constitution a + 6"

text \<open>
  \<^verbatim>\<open>getattr(avatar, name)\<close> and \<^verbatim>\<open>setattr(avatar, name, value)\<close>, as far as
  \<^verbatim>\<open>modifier\<close> and \<^verbatim>\<open>LevelUp.execute\<close> need them: an attribute holds an integer or
  some other object. Names that are neither fields, properties nor methods of the class
  raise \<^verbatim>\<open>AttributeError\<close> (the attributes every Python object has, such as
  \<^verbatim>\<open>__class__\<close>, are not modelled).
\<close>

datatype attr = AInt int | AOther

definition getattr :: "avatar \<Rightarrow> string \<Rightarrow> error + attr" where
  "getattr a n =
     (if n = ''strength'' then Inr (AInt (strength a))
      else if n = ''dexterity'' then Inr (AInt (dexterity a))
      else if n = ''constitution'' then Inr (AInt (constitution a))
      else if n = ''intelligence'' then Inr (AInt (intelligence a))
      else if n = ''wisdom'' then Inr (AInt (wisdom a))
      else if n = ''charisma'' then Inr (AInt (charisma a))
      else if n = ''hp'' then Inr (AInt (hp a))
      else if n = ''xp'' then Inr (AInt (xp a))
      else if n = ''lv'' then Inr (AInt (lv a))
      else if n = ''max_hp'' then Inr (AInt (max_hp a))
      else if n \<in> set [''user'', ''name'', ''gravatar_hash'', ''items'', ''current_block'',
                        ''damage'', ''profile_image_url'', ''modifier'', ''get_item'', ''get'']
        then Inr AOther
      else Inl AttributeError)"


text \<open>\<^verbatim>\<open>Avatar.modifier(status)\<close>: the table of ability modifiers; any value outside
  1..18, and any attribute that is not an integer, gives 0.\<close>

definition modifier :: "avatar \<Rightarrow> string \<Rightarrow> error + int" where
  "modifier a status =
     bind_err (getattr a status) (\<lambda>v.
       case v of
         AOther \<Rightarrow> Inr 0
       | AInt s \<Rightarrow>
           if s \<in> set [1, 2, 3] then Inr (- 3)
           else if s \<in> set [4, 5] then Inr (- 2)
           else if s \<in> set [6, 7, 8] then Inr (- 1)
           else if s \<in> set [9, 10, 11, 12] then Inr 0
           else if s \<in> set [13, 14, 15] then Inr 1
           else if s \<in> set [16, 17] then Inr 2
           else if s = 18 then Inr 3
           else Inr 0)"

text \<open>\<^verbatim>\<open>Avatar.get_item(item)\<close>.\<close>

definition get_item :: "avatar \<Rightarrow> string \<Rightarrow> avatar" where
  "get_item a item =
     (case items a item of
        None \<Rightarrow> a\<lparr>items := (items a)(item \<mapsto> 1)\<rparr>
      | Some n \<Rightarrow> a\<lparr>items := (items a)(item \<mapsto> n + 1)\<rparr>)"

section \<open>The hash-random stream\<close>

text \<open>
  \<^verbatim>\<open>Move.get_randoms\<close>. A string is false in a condition when it is \<^verbatim>\<open>None\<close> or
  empty. The characters of the block hash and of the move id are combined by
  exclusive or, and the first \<^verbatim>\<open>int(difficulty / 4)\<close> values are sliced off.
\<close>

definition truthy :: "string option \<Rightarrow> bool" where
  "truthy s = (case s of None \<Rightarrow> False | Some v \<Rightarrow> v \<noteq> [])"

definition get_randoms :: "move \<Rightarrow> int list" where
  "get_randoms m =
     (case m_block m of
        None \<Rightarrow> []
      | Some b \<Rightarrow>
          if \<not> (truthy (b_hash b) \<and> truthy (m_id m)) then []
          else
            let result = map (\<lambda>(a, b). of_char a XOR of_char b) (zip (the (b_hash b)) (the (m_id m)))
            in py_slice_from (py_trunc_div (b_difficulty b) 4) result)"

section \<open>Executing moves\<close>

text \<open>
  Every \<^verbatim>\<open>execute(avatar)\<close> starts with \<^verbatim>\<open>if not avatar: avatar = Avatar.get(...)\<close>,
  which replaces an absent argument by the avatar replayed from the chain. The functions
  below take the avatar after that step. Each returns the avatar, which the source
  updates in place, and the result dictionary as the list of its items.
\<close>

type_synonym result = "(string \<times> string) list"

subsection \<open>LevelUp\<close>


subsection \<open>Send\<close>


subsection \<open>Combine\<close>






subsection \<open>HackAndSlash\<close>

text \<open>
  The monster table \<^verbatim>\<open>data/monsters.csv\<close> is a parameter: the list of its rows, each
  a dictionary from column names to strings. For the chosen row the columns
  \<^verbatim>\<open>hp\<close>, \<^verbatim>\<open>piercing\<close> and \<^verbatim>\<open>armor\<close> are converted by \<^verbatim>\<open>int\<close>; the other columns
  (\<^verbatim>\<open>damage\<close>, \<^verbatim>\<open>reward1\<close>, ...) stay strings.
\<close>

type_synonym row = "string \<rightharpoonup> string"

record monster =
  mon_hp :: int
  mon_piercing :: int
  mon_armor :: int
  mon_row :: row

definition column :: "row \<Rightarrow> string \<Rightarrow> error + string" where
  "column r key = (case r key of None \<Rightarrow> Inl KeyError | Some v \<Rightarrow> Inr v)"

definition int_column :: "row \<Rightarrow> string \<Rightarrow> error + int" where
  "int_column r key = bind_err (column r key) py_int"

text \<open>\<^verbatim>\<open>for key in ('hp', 'piercing', 'armor'): monster[key] = int(monster[key])\<close>.\<close>

definition convert_monster :: "row \<Rightarrow> error + monster" where
  "convert_monster r =
     bind_err (int_column r ''hp'') (\<lambda>h.
     bind_err (int_column r ''piercing'') (\<lambda>p.
     bind_err (int_column r ''armor'') (\<lambda>ar.
       Inr \<lparr>mon_hp = h, mon_piercing = p, mon_armor = ar, mon_row = r\<rparr>)))"

text \<open>The entries of \<^verbatim>\<open>battle_status\<close>; those with a monster hold a copy of it.\<close>

datatype battle_event =
    ItemUse
  | ItemUseFail
  | AttackMonster int monster
  | AttackedByMonster int monster
  | GetXp
  | KillMonster monster
  | GetItem string
  | KilledByMonster monster
  | Run monster

text \<open>The state of the combat loop, and what one round of it yields: the state for
  the next round, or the value that \<^verbatim>\<open>execute\<close> returns.\<close>

record combat =
  c_avatar :: avatar
  c_monster :: monster
  c_randoms :: "int list"
  c_status :: "battle_event list"

datatype round = Next combat | Return avatar string "battle_event list"

definition then_round :: "error + round \<Rightarrow> (combat \<Rightarrow> error + round) \<Rightarrow> error + round" where
  "then_round r f =
     (case r of
        Inl e \<Rightarrow> Inl e
      | Inr (Return a res st) \<Rightarrow> Inr (Return a res st)
      | Inr (Next c) \<Rightarrow> f c)"

text \<open>
  A roll inside the \<^verbatim>\<open>try\<close> block: \<^verbatim>\<open>OutOfRandomError\<close> is caught and ends the combat
  with \<^verbatim>\<open>'finish'\<close>, keeping what the round has changed so far; any other exception
  passes through.
\<close>

definition try_roll ::
  "combat \<Rightarrow> string \<Rightarrow> (int \<Rightarrow> combat \<Rightarrow> error + round) \<Rightarrow> error + round"
where
  "try_roll c dice f =
     (case roll_combined (c_randoms c) dice of
        Inl e \<Rightarrow>
          if e = OutOfRandomError
          then Inr (Return (c_avatar c) ''finish'' (c_status c @ [Run (c_monster c)]))
          else Inl e
      | Inr (rolled, randoms') \<Rightarrow> f rolled (c\<lparr>c_randoms := randoms'\<rparr>))"

text \<open>The bandage: \<^verbatim>\<open>avatar.hp <= avatar.max_hp * 0.2\<close> compares an integer with a
  float; on integers it holds exactly when \<open>5 * hp \<le> max_hp\<close>.\<close>

definition use_bandage :: "combat \<Rightarrow> error + round" where
  "use_bandage c =
     (let a = c_avatar c in
      case items a ''BNDG'' of
        None \<Rightarrow> Inr (Next c)
      | Some n \<Rightarrow>
          if 5 * hp a \<le> max_hp a \<and> 0 < n then
            try_roll c ''2d6'' (\<lambda>rolled c'.
              if 7 \<le> rolled then
                Inr (Next (c'\<lparr>c_avatar := a\<lparr>hp := hp a + 4, items := (items a)(''BNDG'' \<mapsto> n - 1)\<rparr>,
                               c_status := c_status c' @ [ItemUse]\<rparr>))
              else
                Inr (Next (c'\<lparr>c_avatar := a\<lparr>items := (items a)(''BNDG'' \<mapsto> n - 1)\<rparr>,
                               c_status := c_status c' @ [ItemUseFail]\<rparr>)))
          else Inr (Next c))"

text \<open>What follows the attack roll \<^verbatim>\<open>self.roll(randoms, '2d6')\<close>, whose value is \<open>r\<close>.\<close>

definition attack_outcome :: "int \<Rightarrow> combat \<Rightarrow> error + round" where
  "attack_outcome r c1 =
     bind_err (modifier (c_avatar c1) ''strength'') (\<lambda>md.
       let rolled = r + md; a = c_avatar c1; mon = c_monster c1 in
       if 7 \<le> rolled then
         try_roll c1 (damage a) (\<lambda>d c2.
           let dmg = max (d - mon_armor mon) 0 in
           Inr (Next (c2\<lparr>c_status := c_status c2 @ [AttackMonster dmg mon],
                         c_monster := mon\<lparr>mon_hp := mon_hp mon - dmg\<rparr>\<rparr>)))
       else if rolled \<in> set [2, 3, 4, 5, 6, 7, 8, 9] then
         bind_err (column (mon_row mon) ''damage'') (\<lambda>mdice.
           try_roll c1 mdice (\<lambda>monster_damage c2.
             let c3 = c2\<lparr>c_status := c_status c2 @ [AttackedByMonster monster_damage mon],
                         c_avatar := a\<lparr>hp := hp a - monster_damage\<rparr>\<rparr>
             in if rolled \<le> 6 then
                  Inr (Next (c3\<lparr>c_status := c_status c3 @ [GetXp],
                                c_avatar := (c_avatar c3)\<lparr>xp := xp (c_avatar c3) + 1\<rparr>\<rparr>))
                else Inr (Next c3)))
       else Inr (Next c1))"

definition attack :: "combat \<Rightarrow> error + round" where
  "attack c = try_roll c ''2d6'' attack_outcome"

definition monster_killed :: "combat \<Rightarrow> error + round" where
  "monster_killed c =
     (let mon = c_monster c in
      if mon_hp mon \<le> 0 then
        try_roll (c\<lparr>c_status := c_status c @ [KillMonster mon]\<rparr>) ''1d10'' (\<lambda>reward_code c1.
          bind_err (column (mon_row mon) (''reward'' @ str_int reward_code)) (\<lambda>reward.
            if reward \<noteq> [] then
              Inr (Return (get_item (c_avatar c1) reward) ''win'' (c_status c1 @ [GetItem reward]))
            else Inr (Return (c_avatar c1) ''win'' (c_status c1))))
      else Inr (Next c))"

definition avatar_killed :: "combat \<Rightarrow> error + round" where
  "avatar_killed c =
     (if hp (c_avatar c) \<le> 0
      then Inr (Return (c_avatar c) ''lose'' (c_status c @ [KilledByMonster (c_monster c)]))
      else Inr (Next c))"

text \<open>One pass through the body of \<^verbatim>\<open>while True\<close>.\<close>

definition combat_round :: "combat \<Rightarrow> error + round" where
  "combat_round c =
     then_round (use_bandage c) (\<lambda>c1.
     then_round (attack c1) (\<lambda>c2.
     then_round (monster_killed c2) avatar_killed))"

text \<open>The loop \<^verbatim>\<open>while True\<close>: it ends because every round that does not return
  takes two values from the random list for the attack roll.\<close>

lemma roll_loop_length:
  "roll_loop n t rs acc = Inr (res, rs') \<Longrightarrow> length rs' + n = length rs"
proof (induction n arbitrary: rs acc)
  case 0
  then show ?case by simp
next
  case (Suc n)
  from Suc.prems have ne: "rs \<noteq> []" and nz: "t \<noteq> 0"
    by (auto split: if_splits)
  with Suc.prems have "roll_loop n t (butlast rs) (acc @ [last rs mod t + 1]) = Inr (res, rs')"
    by simp
  from Suc.IH [OF this] ne show ?case
    by (cases rs rule: rev_cases) auto
qed

lemma roll_combined_length:
  "roll_combined rs dice = Inr (v, rs') \<Longrightarrow> length rs' \<le> length rs"
  by (auto simp: roll_combined_def roll_dice_def bind_err_def
           split: sum.splits prod.splits dest!: roll_loop_length)

lemma try_roll_length:
  assumes "try_roll c dice f = Inr (Next c')"
    and "\<And>v d. length (c_randoms d) \<le> length (c_randoms c) \<Longrightarrow> f v d = Inr (Next c')
           \<Longrightarrow> length (c_randoms c') \<le> length (c_randoms d)"
  shows "length (c_randoms c') \<le> length (c_randoms c)"
proof (cases "roll_combined (c_randoms c) dice")
  case (Inl e)
  with assms(1) show ?thesis
    by (simp add: try_roll_def split: if_splits)
next
  case (Inr p)
  obtain v rs' where p: "p = (v, rs')" by (cases p)
  from Inr p have le: "length rs' \<le> length (c_randoms c)"
    by (auto dest: roll_combined_length)
  from assms(1) Inr p have "f v (c\<lparr>c_randoms := rs'\<rparr>) = Inr (Next c')"
    by (simp add: try_roll_def)
  from assms(2) [OF _ this] le show ?thesis by simp
qed

lemma two_d_six: "roll_dice rs ''2d6'' = bind_err (roll_loop 2 6 rs []) (\<lambda>(res, rs'). Inr (res, 0, rs'))"
  by (simp add: roll_dice_def split_plus_def split_d_def py_find_def py_int_def py_strip_def
      is_space_def unsigned_value_def is_digit_def digit_val_def bind_err_def)

lemma roll_two_d_six_length:
  "roll_combined rs ''2d6'' = Inr (v, rs') \<Longrightarrow> length rs' + 2 = length rs"
  by (auto simp: roll_combined_def two_d_six bind_err_def
           split: sum.splits prod.splits dest!: roll_loop_length)

lemma use_bandage_length:
  "use_bandage c = Inr (Next c') \<Longrightarrow> length (c_randoms c') \<le> length (c_randoms c)"
  unfolding use_bandage_def Let_def
  by (auto split: option.splits if_splits elim!: try_roll_length)

lemma attack_outcome_length:
  "attack_outcome r c1 = Inr (Next c') \<Longrightarrow> length (c_randoms c') \<le> length (c_randoms c1)"
  unfolding attack_outcome_def Let_def bind_err_def
  by (auto split: if_splits sum.splits elim!: try_roll_length)

lemma attack_length:
  assumes "attack c = Inr (Next c')"
  shows "length (c_randoms c') < length (c_randoms c)"
proof (cases "roll_combined (c_randoms c) ''2d6''")
  case (Inl e)
  with assms show ?thesis
    by (simp add: attack_def try_roll_def split: if_splits)
next
  case (Inr p)
  obtain r rs1 where p: "p = (r, rs1)" by (cases p)
  from Inr p have "length rs1 < length (c_randoms c)"
    by (auto dest: roll_two_d_six_length)
  moreover from assms Inr p have "attack_outcome r (c\<lparr>c_randoms := rs1\<rparr>) = Inr (Next c')"
    by (simp add: attack_def try_roll_def)
  from attack_outcome_length [OF this] have "length (c_randoms c') \<le> length rs1"
    by simp
  ultimately show ?thesis by simp
qed

lemma monster_killed_length:
  "monster_killed c = Inr (Next c') \<Longrightarrow> c' = c"
proof -
  assume a: "monster_killed c = Inr (Next c')"
  show ?thesis
  proof (cases "mon_hp (c_monster c) \<le> 0")
    case False
    with a show ?thesis by (simp add: monster_killed_def Let_def)
  next
    case True
    with a show ?thesis
      by (auto simp: monster_killed_def Let_def try_roll_def bind_err_def
               split: sum.splits if_splits prod.splits)
  qed
qed

lemma avatar_killed_length:
  "avatar_killed c = Inr (Next c') \<Longrightarrow> c' = c"
  by (simp add: avatar_killed_def split: if_splits)

lemma then_round_Next:
  "then_round r f = Inr (Next c') \<Longrightarrow> \<exists>c1. r = Inr (Next c1) \<and> f c1 = Inr (Next c')"
  by (auto simp: then_round_def split: sum.splits round.splits)

lemma combat_round_length:
  assumes "combat_round c = Inr (Next c')"
  shows "length (c_randoms c') < length (c_randoms c)"
proof -
  from assms obtain c1 c2 c3 where
    1: "use_bandage c = Inr (Next c1)" and 2: "attack c1 = Inr (Next c2)" and
    3: "monster_killed c2 = Inr (Next c3)" and 4: "avatar_killed c3 = Inr (Next c')"
    unfolding combat_round_def by (blast dest: then_round_Next)
  from 3 4 have "c' = c2"
    by (auto dest: monster_killed_length avatar_killed_length)
  with use_bandage_length [OF 1] attack_length [OF 2] show ?thesis by simp
qed

function combat_loop :: "combat \<Rightarrow> error + (avatar \<times> string \<times> battle_event list)" where
  "combat_loop c =
     (case combat_round c of
        Inl e \<Rightarrow> Inl e
      | Inr (Return a res status) \<Rightarrow> Inr (a, res, status)
      | Inr (Next c') \<Rightarrow> combat_loop c')"
  by pat_completeness auto
termination
  by (relation "measure (\<lambda>c. length (c_randoms c))") (auto dest: combat_round_length)

declare combat_loop.simps [simp del]

text \<open>
  \<^verbatim>\<open>HackAndSlash.execute\<close> from \<^verbatim>\<open>randoms = self.get_randoms()\<close> on. The monster is
  chosen by \<^verbatim>\<open>monsters[randoms.pop() % len(monsters)]\<close> before the \<^verbatim>\<open>try\<close> block:
  \<^verbatim>\<open>pop\<close> on an empty list raises \<^verbatim>\<open>IndexError\<close>, an empty table makes \<^verbatim>\<open>%\<close> raise.
  The result is the avatar, the entry \<^verbatim>\<open>result\<close> of the dictionary and its
  \<^verbatim>\<open>battle_status\<close>.
\<close>

definition hack_and_slash_run ::
  "row list \<Rightarrow> int list \<Rightarrow> avatar \<Rightarrow> error + (avatar \<times> string \<times> battle_event list)"
where
  "hack_and_slash_run monsters randoms a =
     (if randoms = [] then Inl IndexError
      else if monsters = [] then Inl ZeroDivisionError
      else
        bind_err (convert_monster (monsters ! nat (last randoms mod int (length monsters))))
          (\<lambda>monster.
            combat_loop \<lparr>c_avatar = a, c_monster = monster, c_randoms = butlast randoms,
                         c_status = []\<rparr>))"

definition hack_and_slash_execute ::
  "row list \<Rightarrow> move \<Rightarrow> avatar \<Rightarrow> error + (avatar \<times> string \<times> battle_event list)"
where
  "hack_and_slash_execute monsters m a = hack_and_slash_run monsters (get_randoms m) a"

section \<open>The chain\<close>

subsection \<open>Primitives from outside the module\<close>



subsection \<open>Canonical serialization\<close>







subsection \<open>Validity\<close>



subsection \<open>The block table\<close>

text \<open>The table of blocks is the list of its rows.
  \<open>get_block\<close> is \<^verbatim>\<open>session.query(Block).get(k)\<close>, \<open>last_block\<close> is
  \<^verbatim>\<open>session.query(Block).order_by(Block.id.desc()).first()\<close>.\<close>

definition get_block :: "block list \<Rightarrow> int \<Rightarrow> block option" where
  "get_block tbl k = find (\<lambda>b. b_id b = k) tbl"

fun last_block :: "block list \<Rightarrow> block option" where
  "last_block [] = None"
| "last_block (b # bs) =
     (case last_block bs of
        None \<Rightarrow> Some b
      | Some c \<Rightarrow> if b_id c < b_id b then Some b else Some c)"

subsection \<open>Minting a block\<close>








subsection \<open>Synchronisation\<close>

text \<open>
  What a peer answers: \<open>n_last\<close> to \<^verbatim>\<open>GET /blocks/last\<close>, \<open>n_block k\<close> to
  \<^verbatim>\<open>GET /blocks/k\<close> and \<open>n_blocks_from k\<close> to \<^verbatim>\<open>GET /blocks?from=k\<close>. A block on
  the wire comes with its moves.
\<close>

type_synonym wire_block = "block \<times> move list"

record node =
  n_last :: "wire_block option"
  n_block :: "int \<Rightarrow> wire_block option"
  n_blocks_from :: "int \<Rightarrow> wire_block list"

text \<open>
  The local function \<^verbatim>\<open>find_branch_point(value, high)\<close> of \<^verbatim>\<open>Block.sync\<close>.
  \<^verbatim>\<open>block.hash\<close> is read only when the peer has a block at \<open>mid\<close>; a missing local
  block then raises \<^verbatim>\<open>AttributeError\<close>.
\<close>

function find_branch_point :: "block list \<Rightarrow> node \<Rightarrow> int \<Rightarrow> int \<Rightarrow> error + int" where
  "find_branch_point tbl nd val high =
     (let mid = py_trunc_div (val + high) 2 in
      if high < val then Inr 0
      else
        (case n_block nd mid of
           None \<Rightarrow> find_branch_point tbl nd val (mid - 1)
         | Some (pb, pms) \<Rightarrow>
             (case get_block tbl mid of
                None \<Rightarrow> Inl AttributeError
              | Some block \<Rightarrow>
                  if b_hash block = b_hash pb then
                    (if val = mid then Inr val else find_branch_point tbl nd mid high)
                  else find_branch_point tbl nd val (mid - 1))))"
  by pat_completeness auto

lemma mid_bounds:
  fixes val high :: int
  assumes "val \<le> high"
  shows "val \<le> py_trunc_div (val + high) 2 \<and> py_trunc_div (val + high) 2 \<le> high"
proof (cases "0 \<le> val + high")
  case True
  then have "py_trunc_div (val + high) 2 = (val + high) div 2"
    by (cases "val + high = 0") (simp_all add: py_trunc_div_def sgn_if)
  with assms show ?thesis by linarith
next
  case False
  then have "py_trunc_div (val + high) 2 = - ((- (val + high)) div 2)"
    by (simp add: py_trunc_div_def sgn_if)
  with assms show ?thesis by linarith
qed

termination find_branch_point
  by (relation "measure (\<lambda>(tbl, nd, val, high). nat (high - val + 1))")
     (auto simp: not_less dest: mid_bounds)

declare find_branch_point.simps [simp del]

text \<open>The branch point as \<^verbatim>\<open>Block.sync\<close> computes it from the last local block.\<close>

definition branch_point :: "block list \<Rightarrow> node \<Rightarrow> error + int" where
  "branch_point tbl nd =
     (case last_block tbl of
        Some lb \<Rightarrow>
          bind_err (find_branch_point tbl nd (b_id lb) (b_id lb)) (\<lambda>r.
            if r = b_id lb then Inr (b_id lb)
            else find_branch_point tbl nd 0 (b_id lb))
      | None \<Rightarrow> Inr 0)"












section \<open>Properties of the dice\<close>

text \<open>
  A dice expression \<^verbatim>\<open>NdM\<close> or \<^verbatim>\<open>NdM+K\<close>, where \<open>N\<close>, \<open>M\<close> and \<open>K\<close> are
  decimal numerals: non-empty strings of digits, read in base ten.
\<close>

definition numeral_str :: "string \<Rightarrow> bool" where
  "numeral_str s = (s \<noteq> [] \<and> list_all is_digit s)"

definition decimal :: "string \<Rightarrow> int" where
  "decimal s = foldl (\<lambda>a c. 10 * a + digit_val c) 0 s"

definition dice_expression :: "string \<Rightarrow> string \<Rightarrow> string option \<Rightarrow> string" where
  "dice_expression n m k = n @ ''d'' @ m @ (case k of None \<Rightarrow> [] | Some j \<Rightarrow> ''+'' @ j)"

subsection \<open>Splitting and reading numerals\<close>

lemma py_split_no_sep: "c \<notin> set xs \<Longrightarrow> py_split c xs = [xs]"
  by (induction xs) auto

lemma py_split_append: "c \<notin> set xs \<Longrightarrow> py_split c (xs @ c # ys) = xs # py_split c ys"
  by (induction xs) auto

lemma py_find_append: "c \<notin> set xs \<Longrightarrow> py_find c (xs @ c # ys) = int (length xs)"
  by (simp add: py_find_def takeWhile_append)

lemma digits_value_digits:
  "list_all is_digit ds \<Longrightarrow> digits_value acc ds = Inr (foldl (\<lambda>a c. 10 * a + digit_val c) acc ds)"
proof (induction acc ds rule: digits_value.induct)
  case (3 acc c d cs)
  then have "d \<noteq> CHR ''_''" by (auto simp: is_digit_def)
  with 3 show ?case by simp
qed simp_all

lemma digit_not_special:
  "is_digit c \<Longrightarrow> \<not> is_space c \<and> c \<noteq> CHR ''-'' \<and> c \<noteq> CHR ''+'' \<and> c \<noteq> CHR ''d''"
  by (auto simp: is_digit_def is_space_def)

lemma py_strip_numeral: "numeral_str s \<Longrightarrow> py_strip s = s"
proof -
  assume a: "numeral_str s"
  then obtain c cs where s: "s = c # cs" by (cases s) (auto simp: numeral_str_def)
  with a have 1: "dropWhile is_space s = s"
    by (auto simp: numeral_str_def digit_not_special)
  from a have "rev s \<noteq> []" "\<not> is_space (hd (rev s))"
    by (auto simp: numeral_str_def hd_rev list_all_iff digit_not_special)
  then have "dropWhile is_space (rev s) = rev s"
    by (cases "rev s") auto
  with 1 show ?thesis by (simp add: py_strip_def)
qed

lemma py_int_numeral: "numeral_str s \<Longrightarrow> py_int s = Inr (decimal s)"
proof -
  assume a: "numeral_str s"
  then obtain c cs where s: "s = c # cs" by (cases s) (auto simp: numeral_str_def)
  from a s have c: "is_digit c" by (simp add: numeral_str_def)
  from a have "unsigned_value s = Inr (decimal s)"
    by (simp add: unsigned_value_def numeral_str_def decimal_def digits_value_digits)
  with a s c show ?thesis
    using digit_not_special [OF c] by (simp add: py_int_def py_strip_numeral)
qed

lemma numeral_no_char: "numeral_str s \<Longrightarrow> CHR ''d'' \<notin> set s \<and> CHR ''+'' \<notin> set s"
  by (auto simp: numeral_str_def list_all_iff dest: digit_not_special)

subsection \<open>The loop over the dice\<close>

lemma roll_loop_enough:
  "n \<le> length rs \<Longrightarrow> t \<noteq> 0 \<Longrightarrow>
   roll_loop n t rs acc = Inr (acc @ map (\<lambda>v. v mod t + 1) (take n (rev rs)), take (length rs - n) rs)"
proof (induction n arbitrary: rs acc)
  case 0
  then show ?case by simp
next
  case (Suc n)
  then obtain ys y where rs: "rs = ys @ [y]" by (cases rs rule: rev_cases) auto
  with Suc show ?case by simp
qed

lemma roll_loop_short:
  "length rs < n \<Longrightarrow> t \<noteq> 0 \<or> rs = [] \<Longrightarrow> roll_loop n t rs acc = Inl OutOfRandomError"
proof (induction n arbitrary: rs acc)
  case 0
  then show ?case by simp
next
  case (Suc n)
  show ?case
  proof (cases rs rule: rev_cases)
    case Nil
    then show ?thesis by simp
  next
    case (snoc ys y)
    with Suc.prems have "roll_loop n t ys (acc @ [y mod t + 1]) = Inl OutOfRandomError"
      by (intro Suc.IH) auto
    with snoc Suc.prems show ?thesis by simp
  qed
qed

lemma split_d_numerals:
  "numeral_str n \<Longrightarrow> numeral_str m \<Longrightarrow> split_d (n @ CHR ''d'' # m) = Inr (decimal n, decimal m)"
  by (simp add: split_d_def py_split_append py_split_no_sep numeral_no_char py_int_numeral bind_err_def)

lemma split_plus_none:
  "numeral_str n \<Longrightarrow> numeral_str m \<Longrightarrow> split_plus (n @ CHR ''d'' # m) = Inr (n @ CHR ''d'' # m, 0)"
  by (simp add: split_plus_def py_find_def numeral_no_char)

lemma split_plus_some:
  assumes "numeral_str n" "numeral_str m" "numeral_str k"
  shows "split_plus (n @ CHR ''d'' # m @ CHR ''+'' # k) = Inr (n @ CHR ''d'' # m, decimal k)"
proof -
  let ?d = "n @ CHR ''d'' # m"
  from assms have notin: "CHR ''+'' \<notin> set ?d" by (simp add: numeral_no_char)
  have e: "n @ CHR ''d'' # m @ CHR ''+'' # k = ?d @ CHR ''+'' # k" by simp
  from assms have "0 < py_find CHR ''+'' (?d @ CHR ''+'' # k)"
    unfolding py_find_append [OF notin] by simp
  moreover have "py_split CHR ''+'' (?d @ CHR ''+'' # k) = [?d, k]"
    unfolding py_split_append [OF notin] using assms by (simp add: py_split_no_sep numeral_no_char)
  ultimately show ?thesis
    unfolding e split_plus_def using assms by (simp add: py_int_numeral bind_err_def)
qed

lemma roll_dice_expression:
  assumes "numeral_str n" "numeral_str m" "case k of None \<Rightarrow> True | Some j \<Rightarrow> numeral_str j"
  shows "roll_dice rs (dice_expression n m k) =
     bind_err (roll_loop (nat (decimal n)) (decimal m) rs [])
       (\<lambda>(res, rs'). Inr (res, (case k of None \<Rightarrow> 0 | Some j \<Rightarrow> decimal j), rs'))"
proof (cases k)
  case None
  with assms show ?thesis
    by (simp add: roll_dice_def dice_expression_def split_plus_none split_d_numerals bind_err_def)
next
  case (Some j)
  with assms show ?thesis
    by (simp add: roll_dice_def dice_expression_def split_plus_some split_d_numerals bind_err_def)
qed

text \<open>
  Claim C5, as amended. For every list of random values and every dice expression
  \<^verbatim>\<open>NdM\<close>, optionally followed by \<^verbatim>\<open>+K\<close>, whose die has at least one side
  (\<open>M \<ge> 1\<close>), \<^verbatim>\<open>roll\<close> with \<^verbatim>\<open>combine=True\<close> takes \<open>N\<close> values from the end of the
  list, last one first, and returns the sum of \<open>v mod M + 1\<close> over them, plus \<open>K\<close>,
  together with the shortened list; when the list holds fewer than \<open>N\<close> values it raises
  \<^verbatim>\<open>OutOfRandomError\<close>.
\<close>

theorem roll_sum_of_dice:
  assumes "numeral_str n" and "numeral_str m" and "decimal m \<noteq> 0"
    and "case k of None \<Rightarrow> True | Some j \<Rightarrow> numeral_str j"
  shows "roll rs (dice_expression n m k) True =
     (if nat (decimal n) \<le> length rs then
        Inr (Combined (sum_list (map (\<lambda>v. v mod decimal m + 1) (take (nat (decimal n)) (rev rs)))
                       + (case k of None \<Rightarrow> 0 | Some j \<Rightarrow> decimal j)),
             take (length rs - nat (decimal n)) rs)
      else Inl OutOfRandomError)"
  using assms
  by (simp add: roll_def roll_dice_expression roll_loop_enough roll_loop_short bind_err_def)

text \<open>The example of the specification: \<^verbatim>\<open>roll([1, 7, 3], '2d6')\<close> is 6, and the
  list is left as \<^verbatim>\<open>[1]\<close>.\<close>

theorem roll_sum_of_dice_witness:
  "numeral_str ''2'' \<and> numeral_str ''6'' \<and> decimal ''6'' \<noteq> 0 \<and>
   roll [1, 7, 3] ''2d6'' True = Inr (Combined 6, [1])"
  using roll_sum_of_dice [of "''2''" "''6''" None "[1, 7, 3]"]
  by (simp add: numeral_str_def is_digit_def decimal_def digit_val_def dice_expression_def)

text \<open>
  Claim C5 as it is written covers every expression \<^verbatim>\<open>NdM\<close>, also a die of no
  sides. There it fails: \<^verbatim>\<open>roll([5], '2d0')\<close> has fewer than two values to draw, yet
  the first draw succeeds and \<^verbatim>\<open>5 % 0\<close> raises \<^verbatim>\<open>ZeroDivisionError\<close>, which
  \<^verbatim>\<open>except IndexError\<close> does not catch.
\<close>

theorem zero_sided_die_counterexample:
  "roll [5] ''2d0'' True = Inl ZeroDivisionError"
  by (simp add: roll_def roll_dice_def split_plus_def split_d_def py_find_def
      py_int_def py_strip_def is_space_def unsigned_value_def is_digit_def digit_val_def
      bind_err_def numeral_2_eq_2)

section \<open>Properties of the random stream\<close>





section \<open>Properties of the moves\<close>

subsection \<open>LevelUp\<close>







subsection \<open>Send\<close>




subsection \<open>Combine\<close>











section \<open>Properties of minting\<close>

subsection \<open>The table and the new block\<close>




lemma get_block_Some: "get_block tbl k = Some b \<Longrightarrow> b \<in> set tbl \<and> b_id b = k"
  by (auto simp: get_block_def find_Some_iff)








subsection \<open>Difficulty adjustment\<close>





subsection \<open>The sign of the difficulty\<close>




section \<open>Properties of the combat\<close>























section \<open>Properties of synchronisation\<close>

subsection \<open>What the validity of a block checks\<close>











subsection \<open>Chains for evaluation\<close>

text \<open>
  Modelled from the spec: the routes of a peer (section 6 of the specification), which
  are not part of \<^verbatim>\<open>models.py\<close>. A peer that holds the given chain, in ascending
  order of ids, answers \<^verbatim>\<open>GET /blocks/last\<close> with its last block,
  \<^verbatim>\<open>GET /blocks/k\<close> with the block of id \<open>k\<close> or null, and \<^verbatim>\<open>GET /blocks?from=k\<close> with
  the blocks from id \<open>k\<close> on.
\<close>

definition serve :: "wire_block list \<Rightarrow> node" where
  "serve chain =
     \<lparr>n_last = (if chain = [] then None else Some (last chain)),
      n_block = (\<lambda>k. find (\<lambda>w. b_id (fst w) = k) chain),
      n_blocks_from = (\<lambda>k. filter (\<lambda>w. k \<le> b_id (fst w)) chain)\<rparr>"

text \<open>A block of a given id and hash; its other fields play no part in the probe.\<close>

definition block_with :: "int \<Rightarrow> string \<Rightarrow> block" where
  "block_with i h = \<lparr>b_id = i, b_hash = Some h, b_prev_hash = None, b_creator = [],
     b_root_hash = [], b_suffix = [], b_difficulty = 0, b_created_at = 0\<rparr>"





subsection \<open>Blocks that sync admits\<close>



subsection \<open>The branch-point probe\<close>

text \<open>The scenario of the specification: the chains agree up to height 2, and the
  probe finds 2.\<close>

lemma probe_spec_scenario:
  "branch_point
     [block_with 1 ''g'', block_with 2 ''a'', block_with 3 ''b'', block_with 4 ''c'']
     (serve [(block_with 1 ''g'', []), (block_with 2 ''a'', []), (block_with 3 ''b2'', []),
             (block_with 4 ''c2'', []), (block_with 5 ''d2'', [])]) = Inr 2"
  by (simp add: branch_point_def find_branch_point.simps serve_def block_with_def get_block_def
      py_trunc_div_def bind_err_def)


end
